theory Spec2Isabelle
  imports Complex_Main
begin

section \<open>Football analytics notebooks: shot geometry, xG and scoreline simulation\<close>

text \<open>
  The notebooks compute with Python floats.  Two readings are used.  In the exact
  reading a float is a real number and the operations are the exact ones; it is
  used for the claims about values (a distance, the cells of the scoreline matrix).
  In the double-precision reading every operation returns the exact result rounded
  to the nearest double; it is used where a claim depends on a rounded value, as
  the divisor of the shot angle does.  NaN and signed zeros are outside both.
  What Python raises is a branch of the model: a result is \<open>Inl e\<close> for an exception
  \<open>e\<close> and \<open>Inr v\<close> for a returned value \<open>v\<close>.
\<close>

datatype py_error =
    ZeroDivisionError
  | FileNotFoundError
  | KeyError string
  | PatsyError

subsection \<open>Notebook 01 in exact arithmetic: shot distance and shot angle\<close>

text \<open>
  \<open>transform_coordinates_for_computation\<close>: \<open>m_x = 100 - x\<close>, \<open>c = abs(y - 50)\<close>,
  returns \<open>((m_x * 105) / 100, (c * 65) / 100)\<close>.
\<close>

definition transform_coordinates_for_computation :: "real \<Rightarrow> real \<Rightarrow> real \<times> real" where
  "transform_coordinates_for_computation x y =
     (let m_x = 100 - x;
          c = \<bar>y - 50\<bar>
      in ((m_x * 105) / 100, (c * 65) / 100))"

text \<open>\<open>compute_shot_distance\<close>: \<open>np.sqrt(t_x ** 2 + t_y ** 2)\<close>.\<close>

definition compute_shot_distance :: "real \<Rightarrow> real \<Rightarrow> real" where
  "compute_shot_distance x y =
     (case transform_coordinates_for_computation x y of
        (t_x, t_y) \<Rightarrow> sqrt (t_x ^ 2 + t_y ^ 2))"

text \<open>
  Python's \<open>/\<close> on floats raises \<open>ZeroDivisionError\<close> when the divisor is zero.
\<close>

definition py_truediv :: "real \<Rightarrow> real \<Rightarrow> py_error + real" where
  "py_truediv a b = (if b = 0 then Inl ZeroDivisionError else Inr (a / b))"

text \<open>
  \<open>compute_shot_angle\<close>:
  \<open>angle = np.arctan((7.32 * t_x) / (t_x ** 2 + t_y ** 2 - (7.32 / 2) ** 2))\<close>;
  \<open>if angle < 0: angle = np.pi + angle\<close>.  The inner division \<open>7.32 / 2\<close> has a
  non-zero literal divisor.  In the exact reading the outer divisor is zero only on
  a circle on which no double lies; where the code divides by zero is decided by
  rounding and is stated on the double-precision reading below.
\<close>

definition compute_shot_angle :: "real \<Rightarrow> real \<Rightarrow> py_error + real" where
  "compute_shot_angle x y =
     (case transform_coordinates_for_computation x y of
        (t_x, t_y) \<Rightarrow>
          (case py_truediv (7.32 * t_x) (t_x ^ 2 + t_y ^ 2 - (7.32 / 2) ^ 2) of
             Inl e \<Rightarrow> Inl e
           | Inr q \<Rightarrow>
               (let angle = arctan q
                in Inr (if angle < 0 then pi + angle else angle))))"

subsection \<open>The stored model parameters\<close>

text \<open>
  \<open>os.path.join\<close> of two components on a POSIX system: an absolute second component
  replaces the first; otherwise the components are joined with one separator unless
  the first is empty or already ends with one.
\<close>

definition os_path_join :: "string \<Rightarrow> string \<Rightarrow> string" where
  "os_path_join a b =
     (if b \<noteq> [] \<and> hd b = CHR ''/'' then b
      else if a = [] \<or> last a = CHR ''/'' then a @ b
      else a @ ''/'' @ b)"

text \<open>
  The pickled parameter series is a mapping from feature name to coefficient; the
  file system is a mapping from path to the parameter series stored there.
  Indexing a series by a missing label raises \<open>KeyError\<close>; opening a missing file
  raises \<open>FileNotFoundError\<close>.
\<close>

type_synonym model_params = "string \<rightharpoonup> real"
type_synonym model_files = "string \<rightharpoonup> model_params"

definition series_getitem :: "model_params \<Rightarrow> string \<Rightarrow> py_error + real" where
  "series_getitem s k = (case s k of None \<Rightarrow> Inl (KeyError k) | Some v \<Rightarrow> Inr v)"

definition load_params :: "model_files \<Rightarrow> string \<Rightarrow> py_error + model_params" where
  "load_params fs p = (case fs p of None \<Rightarrow> Inl FileNotFoundError | Some s \<Rightarrow> Inr s)"

text \<open>The default value of \<open>model_dir\<close>.\<close>

definition default_model_dir :: string where
  "default_model_dir = ''../models''"

subsection \<open>Notebook 01 in double precision\<close>

text \<open>
  Where a claim turns on a rounded value (a divisor tested for zero), the functions
  are read in IEEE 754 double precision.  A double is the real number it denotes;
  every arithmetic operation returns the exact result rounded to the nearest double,
  ties to the even significand.  The exponent range is not bounded in \<open>rnd\<close>: results
  that underflow the double format are outside the model, and the one overflow the
  code can meet, in \<open>np.exp\<close>, is a branch of \<open>compute_xg_f64\<close>.
\<close>

text \<open>Rounding to the nearest integer, ties to even.\<close>

definition rhe :: "real \<Rightarrow> int" where
  "rhe m = (let f = \<lfloor>m\<rfloor>; r = m - of_int f
            in if r < 1 / 2 then f
               else if 1 / 2 < r then f + 1
               else if even f then f else f + 1)"

text \<open>
  Rounding to 53 significant bits: the argument is scaled into \<open>[2^52, 2^53)\<close>,
  rounded to an integer and scaled back.
\<close>

definition rnd :: "real \<Rightarrow> real" where
  "rnd z = (if z = 0 then 0
            else let s = 2 powr of_int (\<lfloor>log 2 \<bar>z\<bar>\<rfloor> - 52)
                 in sgn z * of_int (rhe (\<bar>z\<bar> / s)) * s)"

text \<open>The float division that can raise: a zero divisor is \<open>ZeroDivisionError\<close>.\<close>

definition f64_truediv :: "real \<Rightarrow> real \<Rightarrow> py_error + real" where
  "f64_truediv a b = (if b = 0 then Inl ZeroDivisionError else Inr (rnd (a / b)))"

text \<open>The literal \<open>7.32\<close> is the double nearest to it; \<open>np.pi\<close> is the double nearest \<open>\<pi>\<close>.\<close>

definition lit_7_32 :: real where
  "lit_7_32 = rnd 7.32"

definition np_pi :: real where
  "np_pi = 884279719003555 / 2 ^ 48"

text \<open>The largest finite double.\<close>

definition max_f64 :: real where
  "max_f64 = (2 ^ 53 - 1) * 2 ^ 971"

text \<open>
  The functions of the C library and of numpy that the code calls are parameters of
  the model: \<open>x ** 2\<close> on Python floats (C's \<open>pow\<close>), \<open>np.arctan\<close>, \<open>np.sqrt\<close> and
  \<open>np.exp\<close>.  \<open>correctly_rounded\<close> is the instance in which each returns the rounded
  exact value; it is used to evaluate the code at concrete inputs.
\<close>

record libm =
  py_pow2 :: "real \<Rightarrow> real"
  np_arctan :: "real \<Rightarrow> real"
  np_sqrt :: "real \<Rightarrow> real"
  np_exp :: "real \<Rightarrow> real"

definition correctly_rounded :: libm where
  "correctly_rounded =
     \<lparr>py_pow2 = (\<lambda>x. rnd (x * x)), np_arctan = (\<lambda>x. rnd (arctan x)),
      np_sqrt = (\<lambda>x. rnd (sqrt x)), np_exp = (\<lambda>x. rnd (exp x))\<rparr>"

text \<open>
  What the range of the shot angle needs of an arctangent routine: the sign of its
  argument, zero at zero, and results of magnitude at most 2 (the doubles nearest
  \<open>\<plusminus>\<pi>/2\<close> are below 2 in magnitude).
\<close>

definition arctan_like :: "(real \<Rightarrow> real) \<Rightarrow> bool" where
  "arctan_like f \<longleftrightarrow>
     f 0 = 0 \<and> (\<forall>q. 0 < q \<longrightarrow> 0 < f q \<and> f q \<le> 2)
     \<and> (\<forall>q. q < 0 \<longrightarrow> - 2 \<le> f q \<and> f q < 0)"

text \<open>
  \<open>transform_coordinates_for_computation\<close>: \<open>m_x = 100 - x\<close>, \<open>c = abs(y - 50)\<close>,
  \<open>((m_x * 105) / 100, (c * 65) / 100)\<close>, each operation rounded.
\<close>

definition transform_coordinates_f64 :: "real \<Rightarrow> real \<Rightarrow> real \<times> real" where
  "transform_coordinates_f64 x y =
     (let m_x = rnd (100 - x);
          c = \<bar>rnd (y - 50)\<bar>
      in (rnd (rnd (m_x * 105) / 100), rnd (rnd (c * 65) / 100)))"

text \<open>The divisor \<open>t_x ** 2 + t_y ** 2 - (7.32 / 2) ** 2\<close>.\<close>

definition divisor_f64 :: "libm \<Rightarrow> real \<Rightarrow> real \<Rightarrow> real" where
  "divisor_f64 L t_x t_y =
     rnd (rnd (py_pow2 L t_x + py_pow2 L t_y) - py_pow2 L (rnd (lit_7_32 / 2)))"

text \<open>
  \<open>compute_shot_angle\<close>:
  \<open>angle = np.arctan((7.32 * t_x) / (t_x ** 2 + t_y ** 2 - (7.32 / 2) ** 2))\<close>;
  \<open>if angle < 0: angle = np.pi + angle\<close>.
\<close>

definition compute_shot_angle_f64 :: "libm \<Rightarrow> real \<Rightarrow> real \<Rightarrow> py_error + real" where
  "compute_shot_angle_f64 L x y =
     (case transform_coordinates_f64 x y of
        (t_x, t_y) \<Rightarrow>
          (case f64_truediv (rnd (lit_7_32 * t_x)) (divisor_f64 L t_x t_y) of
             Inl e \<Rightarrow> Inl e
           | Inr q \<Rightarrow>
               (let angle = np_arctan L q
                in Inr (if angle < 0 then rnd (np_pi + angle) else angle))))"

text \<open>\<open>compute_shot_distance\<close>: \<open>np.sqrt(t_x ** 2 + t_y ** 2)\<close>.\<close>

definition compute_shot_distance_f64 :: "libm \<Rightarrow> real \<Rightarrow> real \<Rightarrow> real" where
  "compute_shot_distance_f64 L x y =
     (case transform_coordinates_f64 x y of
        (t_x, t_y) \<Rightarrow> np_sqrt L (rnd (py_pow2 L t_x + py_pow2 L t_y)))"

text \<open>
  \<open>compute_xg\<close>: distance and angle first, then the parameters are loaded from
  \<open>os.path.join(model_dir, model_fn)\<close>, then
  \<open>linear_sum = Intercept + shot_dist * dist + shot_ang * angle\<close> and the result is
  \<open>1 / (1 + np.exp(-1 * linear_sum))\<close>.  When \<open>np.exp\<close> overflows it returns \<open>inf\<close>,
  and \<open>1 / (1 + inf)\<close> is \<open>0.0\<close>.  The divisor \<open>1 + exp _\<close> is never zero.
\<close>

definition compute_xg_f64 ::
  "libm \<Rightarrow> model_files \<Rightarrow> real \<Rightarrow> real \<Rightarrow> string \<Rightarrow> string \<Rightarrow> py_error + real" where
  "compute_xg_f64 L fs xc yc model_fn model_dir =
     (let shot_dist = compute_shot_distance_f64 L xc yc
      in case compute_shot_angle_f64 L xc yc of
           Inl e \<Rightarrow> Inl e
         | Inr shot_ang \<Rightarrow>
             (case load_params fs (os_path_join model_dir model_fn) of
                Inl e \<Rightarrow> Inl e
              | Inr model_params \<Rightarrow>
                  (case series_getitem model_params ''Intercept'' of
                     Inl e \<Rightarrow> Inl e
                   | Inr p_intercept \<Rightarrow>
                       (case series_getitem model_params ''dist'' of
                          Inl e \<Rightarrow> Inl e
                        | Inr p_dist \<Rightarrow>
                            (case series_getitem model_params ''angle'' of
                               Inl e \<Rightarrow> Inl e
                             | Inr p_angle \<Rightarrow>
                                 (let linear_sum =
                                        rnd (rnd (p_intercept + rnd (shot_dist * p_dist))
                                             + rnd (shot_ang * p_angle));
                                      ex = np_exp L (rnd (- 1 * linear_sum))
                                  in Inr (if max_f64 < ex then 0
                                          else rnd (1 / rnd (1 + ex)))))))))"

subsection \<open>Notebook 04: training rows, the Poisson goal model and scoreline simulation\<close>

text \<open>
  The result table \<open>epl\<close> after column selection and renaming: one row per match
  with columns \<open>HomeTeam\<close>, \<open>AwayTeam\<close>, \<open>HomeGoals\<close>, \<open>AwayGoals\<close>.
\<close>

record match_row =
  HomeTeam :: string
  AwayTeam :: string
  HomeGoals :: int
  AwayGoals :: int

record goal_row =
  team :: string
  opponent :: string
  goals :: int
  home :: int

text \<open>
  \<open>goal_model_data\<close>: \<open>pd.concat\<close> of two frames built from \<open>epl\<close>.  The first
  selects \<open>HomeTeam, AwayTeam, HomeGoals\<close>, assigns \<open>home=1\<close> and renames to
  \<open>team, opponent, goals\<close>; the second selects \<open>AwayTeam, HomeTeam, AwayGoals\<close>, assigns
  \<open>home=0\<close> and renames to \<open>team, opponent, goals\<close>.  A frame is the list of its rows.
\<close>

definition home_rows :: "match_row list \<Rightarrow> goal_row list" where
  "home_rows epl =
     map (\<lambda>m. \<lparr>team = HomeTeam m, opponent = AwayTeam m, goals = HomeGoals m, home = 1\<rparr>) epl"

definition away_rows :: "match_row list \<Rightarrow> goal_row list" where
  "away_rows epl =
     map (\<lambda>m. \<lparr>team = AwayTeam m, opponent = HomeTeam m, goals = AwayGoals m, home = 0\<rparr>) epl"

definition goal_model_data :: "match_row list \<Rightarrow> goal_row list" where
  "goal_model_data epl = home_rows epl @ away_rows epl"

text \<open>
  \<open>poisson_model\<close> is the result of
  \<open>smf.glm(formula="goals ~ home + team + opponent", data=goal_model_data,
  family=sm.families.Poisson()).fit()\<close>.  The fit itself is a numerical optimisation
  inside statsmodels and is not modelled: a fitted model is its coefficients, one for
  the intercept, one for \<open>home\<close>, and one for every level of the categorical columns
  \<open>team\<close> and \<open>opponent\<close> that occurs in the fitting data (the reference level of the
  treatment coding has coefficient 0).
\<close>

record goal_model =
  coef_intercept :: real
  coef_home :: real
  coef_team :: "string \<rightharpoonup> real"
  coef_opponent :: "string \<rightharpoonup> real"

definition fitted_on :: "goal_model \<Rightarrow> goal_row list \<Rightarrow> bool" where
  "fitted_on gm rows \<longleftrightarrow>
     dom (coef_team gm) = team ` set rows \<and> dom (coef_opponent gm) = opponent ` set rows"

text \<open>
  \<open>goal_model.predict(pd.DataFrame(data={"team": t, "opponent": opp, "home": h},
  index=[1])).loc[1]\<close>.  The design row is rebuilt from the formula: a value of a
  categorical column that is not among the levels of the fit makes patsy raise
  \<open>PatsyError\<close>.  The Poisson family has the log link, so the prediction is the
  exponential of the linear predictor.
\<close>

definition predict :: "goal_model \<Rightarrow> string \<Rightarrow> string \<Rightarrow> real \<Rightarrow> py_error + real" where
  "predict gm t opp h =
     (case coef_team gm t of
        None \<Rightarrow> Inl PatsyError
      | Some b_team \<Rightarrow>
          (case coef_opponent gm opp of
             None \<Rightarrow> Inl PatsyError
           | Some b_opp \<Rightarrow> Inr (exp (coef_intercept gm + coef_home gm * h + b_team + b_opp))))"

text \<open>
  \<open>scipy.stats.poisson.pmf(k, mu)\<close> for a goal count \<open>k \<ge> 0\<close> and a rate \<open>mu \<ge> 0\<close>:
  \<open>mu ** k * exp(-mu) / k!\<close>.
\<close>

definition poisson_pmf :: "nat \<Rightarrow> real \<Rightarrow> real" where
  "poisson_pmf k mu = mu ^ k * exp (- mu) / fact k"

text \<open>\<open>range(0, n)\<close> for an integer \<open>n\<close>; empty when \<open>n \<le> 0\<close>.\<close>

definition py_range0 :: "int \<Rightarrow> nat list" where
  "py_range0 n = [0 ..< nat n]"

text \<open>\<open>np.outer(a, b)\<close>: the matrix with rows indexed by \<open>a\<close> and columns by \<open>b\<close>.\<close>

definition np_outer :: "real list \<Rightarrow> real list \<Rightarrow> real list list" where
  "np_outer a b = map (\<lambda>u. map (\<lambda>v. u * v) b) a"

text \<open>
  \<open>simulate_matches\<close>: the two predicted means, then
  \<open>simulated_goals = [[poisson.pmf(i, team_mean) for i in range(0, max_goals + 1)]
  for team_mean in [mean_home_goals, mean_away_goals]]\<close> and the result
  \<open>np.outer(simulated_goals[0], simulated_goals[1])\<close>.
\<close>

definition simulate_matches ::
  "goal_model \<Rightarrow> string \<Rightarrow> string \<Rightarrow> int \<Rightarrow> py_error + real list list" where
  "simulate_matches gm home_side away_side max_goals =
     (case predict gm home_side away_side 1 of
        Inl e \<Rightarrow> Inl e
      | Inr mean_home_goals \<Rightarrow>
          (case predict gm away_side home_side 0 of
             Inl e \<Rightarrow> Inl e
           | Inr mean_away_goals \<Rightarrow>
               (let simulated_goals =
                      map (\<lambda>team_mean. map (\<lambda>i. poisson_pmf i team_mean)
                                            (py_range0 (max_goals + 1)))
                          [mean_home_goals, mean_away_goals]
                in Inr (np_outer (simulated_goals ! 0) (simulated_goals ! 1)))))"

text \<open>The default value of \<open>max_goals\<close>.\<close>

definition default_max_goals :: int where
  "default_max_goals = 10"

text \<open>
  A two-team season and a coefficient record over its teams, used to evaluate the
  operations at concrete inputs: the intercept and the team effects are 0 and the
  home effect is \<open>ln 2\<close>, so the predicted rates are 2 at home and 1 away.
\<close>

definition example_epl :: "match_row list" where
  "example_epl =
     [\<lparr>HomeTeam = ''Man City'', AwayTeam = ''Arsenal'', HomeGoals = 3, AwayGoals = 0\<rparr>,
      \<lparr>HomeTeam = ''Arsenal'', AwayTeam = ''Man City'', HomeGoals = 0, AwayGoals = 3\<rparr>]"

definition example_model :: goal_model where
  "example_model =
     \<lparr>coef_intercept = 0, coef_home = ln 2,
      coef_team = [''Man City'' \<mapsto> 0, ''Arsenal'' \<mapsto> 0],
      coef_opponent = [''Man City'' \<mapsto> 0, ''Arsenal'' \<mapsto> 0]\<rparr>"

section \<open>Properties of the shot geometry in exact arithmetic\<close>

lemma transform_coordinates_eq:
  "transform_coordinates_for_computation x y = ((100 - x) * 105 / 100, \<bar>y - 50\<bar> * 65 / 100)"
  by (simp add: transform_coordinates_for_computation_def)

text \<open>
  Claim C8.  For all \<open>x\<close>, \<open>y\<close> in \<open>[0, 100]\<close> the shot distance is the Euclidean norm of
  the transformed coordinates \<open>((100 - x) * 105 / 100, |y - 50| * 65 / 100)\<close> and is
  not negative.
\<close>

theorem compute_shot_distance_euclidean:
  assumes "0 \<le> x" "x \<le> 100" "0 \<le> y" "y \<le> 100"
  shows "compute_shot_distance x y
           = sqrt (((100 - x) * 105 / 100)\<^sup>2 + (\<bar>y - 50\<bar> * 65 / 100)\<^sup>2)
         \<and> 0 \<le> compute_shot_distance x y"
  by (simp add: compute_shot_distance_def transform_coordinates_eq)

theorem compute_shot_distance_euclidean_witness:
  "compute_shot_distance 60 10
     = sqrt (((100 - 60) * 105 / 100)\<^sup>2 + (\<bar>10 - 50\<bar> * 65 / 100)\<^sup>2)
   \<and> 0 \<le> compute_shot_distance 60 10"
  using compute_shot_distance_euclidean [of 60 10] by simp

text \<open>
  Claim C3 as stated fails: the shot at \<open>(90, 50)\<close> is 10.5 m from the goal, which is
  more than 5 m away from the claimed 5.25 m.
\<close>

theorem shot_90_50_distance_not_5_25:
  "\<not> \<bar>compute_shot_distance 90 50 - 5.25\<bar> \<le> 5"
  by (simp add: compute_shot_distance_def transform_coordinates_eq)

text \<open>
  Claim C3, amended.  The shot at \<open>(90, 50)\<close> has distance exactly 10.5 m and angle
  \<open>arctan (76.86 / 96.8544)\<close>, which lies strictly between 0 and \<open>\<pi> / 4\<close>.
\<close>

theorem shot_90_50_values:
  "compute_shot_distance 90 50 = 10.5
   \<and> compute_shot_angle 90 50 = Inr (arctan (76.86 / 96.8544))
   \<and> 0 < arctan (76.86 / 96.8544 :: real)
   \<and> arctan (76.86 / 96.8544 :: real) < pi / 4"
proof -
  have d: "compute_shot_distance 90 50 = 10.5"
    by (simp add: compute_shot_distance_def transform_coordinates_eq)
  have a: "compute_shot_angle 90 50 = Inr (arctan (76.86 / 96.8544))"
    by (simp add: compute_shot_angle_def py_truediv_def transform_coordinates_eq
        power2_eq_square)
  have "arctan (76.86 / 96.8544) < arctan (1::real)"
    by (subst arctan_less_iff) simp
  then have u: "arctan (76.86 / 96.8544 :: real) < pi / 4"
    by (simp add: arctan_one)
  have l: "0 < arctan (76.86 / 96.8544 :: real)"
    by (subst zero_less_arctan_iff) simp
  show ?thesis using d a u l by blast
qed

section \<open>Double precision: rounding, the shot angle and the xG estimate\<close>

text \<open>
  \<open>rnd\<close> keeps the sign of its argument, is monotone, and is evaluated at a
  concrete argument from the power of two that scales it into \<open>[2^52, 2^53)\<close>.
\<close>

lemma rhe_bounds: "m - 1 / 2 \<le> of_int (rhe m) \<and> of_int (rhe m) \<le> m + 1 / 2"
  unfolding rhe_def Let_def by (auto; linarith)

lemma rhe_mono: assumes "a \<le> b" shows "rhe a \<le> rhe b"
proof (cases "a = b")
  case True then show ?thesis by simp
next
  case False
  then have "a < b" using assms by simp
  have "of_int (rhe a) \<le> a + 1 / 2" using rhe_bounds by blast
  moreover have "b - 1 / 2 \<le> of_int (rhe b)" using rhe_bounds by blast
  ultimately have "(of_int (rhe a) :: real) < of_int (rhe b) + 1" using \<open>a < b\<close> by linarith
  then have "(of_int (rhe a) :: real) < of_int (rhe b + 1)" by simp
  then have "rhe a < rhe b + 1" by (simp only: of_int_less_iff)
  then show ?thesis by simp
qed

lemma rhe_of_int: "rhe (of_int n) = n"
  by (simp add: rhe_def)

lemma scale_bounds:
  assumes "z \<noteq> 0"
  defines "s \<equiv> 2 powr of_int (\<lfloor>log 2 \<bar>z\<bar>\<rfloor> - 52)"
  shows "0 < s" "2 ^ 52 \<le> \<bar>z\<bar> / s" "\<bar>z\<bar> / s < 2 ^ 53"
proof -
  let ?k = "\<lfloor>log 2 \<bar>z\<bar>\<rfloor>"
  have pz: "0 < \<bar>z\<bar>" using assms(1) by simp
  have b: "2 powr of_int ?k \<le> \<bar>z\<bar> \<and> \<bar>z\<bar> < 2 powr (of_int ?k + 1)"
    using floor_log_eq_powr_iff [OF pz, of 2 ?k] by simp
  show s: "0 < s" by (simp add: s_def)
  have e: "2 powr of_int ?k = 2 ^ 52 * s"
    by (simp add: s_def powr_diff) 
  have e1: "2 powr (of_int ?k + 1) = 2 ^ 53 * s"
    by (simp add: s_def powr_diff powr_add)
  show "2 ^ 52 \<le> \<bar>z\<bar> / s" using b s by (simp add: e pos_le_divide_eq)
  show "\<bar>z\<bar> / s < 2 ^ 53" using b s by (simp add: e1 pos_divide_less_eq)
qed

lemma rnd_zero [simp]: "rnd 0 = 0" by (simp add: rnd_def)

lemma rnd_minus: "rnd (- z) = - rnd z"
  by (simp add: rnd_def Let_def sgn_minus)

lemma rhe_pow2: "rhe (2 ^ n) = 2 ^ n"
  using rhe_of_int [of "2 ^ n"] by simp

lemma rnd_pos_bounds:
  assumes "0 < z"
  shows "2 ^ 52 * 2 powr of_int (\<lfloor>log 2 z\<rfloor> - 52) \<le> rnd z"
    and "rnd z \<le> 2 ^ 53 * 2 powr of_int (\<lfloor>log 2 z\<rfloor> - 52)"
proof -
  define s :: real where "s = 2 powr of_int (\<lfloor>log 2 z\<rfloor> - 52)"
  define m :: int where "m = rhe (z / s)"
  have z: "z \<noteq> 0" "\<bar>z\<bar> = z" "sgn z = 1" using assms by simp_all
  have sb: "0 < s" "2 ^ 52 \<le> z / s" "z / s < 2 ^ 53"
    using scale_bounds [OF z(1)] unfolding z(2) s_def by blast+
  have "rhe (2 ^ 52) \<le> m" unfolding m_def by (rule rhe_mono) (rule sb(2))
  then have "2 ^ 52 \<le> m" by (simp only: rhe_pow2)
  then have "(of_int (2 ^ 52) :: real) \<le> of_int m" by (simp only: of_int_le_iff)
  then have l: "(2 ^ 52 :: real) \<le> of_int m" by simp
  have "z / s \<le> 2 ^ 53" using sb(3) by simp
  then have "m \<le> rhe (2 ^ 53)" unfolding m_def by (rule rhe_mono)
  then have "m \<le> 2 ^ 53" by (simp only: rhe_pow2)
  then have "(of_int m :: real) \<le> of_int (2 ^ 53)" by (simp only: of_int_le_iff)
  then have u: "of_int m \<le> (2 ^ 53 :: real)" by simp
  have r: "rnd z = of_int m * s"
    using z by (simp add: rnd_def Let_def s_def m_def)
  show "2 ^ 52 * 2 powr of_int (\<lfloor>log 2 z\<rfloor> - 52) \<le> rnd z"
    unfolding r s_def [symmetric] using l sb(1) by (rule mult_right_mono [OF _ less_imp_le])
  show "rnd z \<le> 2 ^ 53 * 2 powr of_int (\<lfloor>log 2 z\<rfloor> - 52)"
    unfolding r s_def [symmetric] using u sb(1) by (rule mult_right_mono [OF _ less_imp_le])
qed

lemma rnd_pos: assumes "0 < z" shows "0 < rnd z"
proof -
  have "(0::real) < 2 ^ 52 * 2 powr of_int (\<lfloor>log 2 z\<rfloor> - 52)" by simp
  then show ?thesis using rnd_pos_bounds(1) [OF assms] by linarith
qed

lemma rnd_neg: "z < 0 \<Longrightarrow> rnd z < 0"
  using rnd_pos [of "- z"] by (simp add: rnd_minus)

lemma rnd_eq_0_iff: "rnd z = 0 \<longleftrightarrow> z = 0"
proof
  assume r: "rnd z = 0"
  show "z = 0"
  proof (rule ccontr)
    assume "z \<noteq> 0"
    then consider "0 < z" | "z < 0" by linarith
    then show False
    proof cases
      case 1 then show False using rnd_pos [of z] r by simp
    next
      case 2 then show False using rnd_neg [of z] r by simp
    qed
  qed
qed simp

lemma rnd_mono_pos:
  assumes "0 < a" "a \<le> b"
  shows "rnd a \<le> rnd b"
proof -
  have b: "0 < b" using assms by simp
  define ka where "ka = \<lfloor>log 2 a\<rfloor>"
  define kb where "kb = \<lfloor>log 2 b\<rfloor>"
  have "log 2 a \<le> log 2 b" using assms by simp
  then have k: "ka \<le> kb" unfolding ka_def kb_def by (rule floor_mono)
  show ?thesis
  proof (cases "ka = kb")
    case True
    define s :: real where "s = 2 powr of_int (ka - 52)"
    have s: "0 < s" by (simp add: s_def)
    have ra: "rnd a = of_int (rhe (a / s)) * s"
      using assms(1) by (simp add: rnd_def Let_def s_def ka_def)
    have rb: "rnd b = of_int (rhe (b / s)) * s"
      using b True by (simp add: rnd_def Let_def s_def ka_def kb_def)
    have "a / s \<le> b / s" using assms(2) s by (simp add: divide_right_mono)
    then have "rhe (a / s) \<le> rhe (b / s)" by (rule rhe_mono)
    then have "(of_int (rhe (a / s)) :: real) \<le> of_int (rhe (b / s))" by simp
    then show ?thesis unfolding ra rb using s by (simp add: mult_right_mono)
  next
    case False
    then have "ka + 1 \<le> kb" using k by simp
    then have "(of_int (ka + 1) :: real) \<le> of_int kb" by (simp only: of_int_le_iff)
    then have 1: "(2::real) powr of_int (ka + 1) \<le> 2 powr of_int kb"
      by (intro powr_mono) simp_all
    have 2: "2 ^ 53 * 2 powr of_int (ka - 52) = (2::real) powr of_int (ka + 1)"
      by (simp add: powr_diff powr_add)
    have 3: "2 ^ 52 * 2 powr of_int (kb - 52) = (2::real) powr of_int kb"
      by (simp add: powr_diff)
    have "rnd a \<le> 2 powr of_int (ka + 1)"
      using rnd_pos_bounds(2) [OF assms(1)] unfolding ka_def [symmetric] 2 .
    moreover have "2 powr of_int kb \<le> rnd b"
      using rnd_pos_bounds(1) [OF b] unfolding kb_def [symmetric] 3 .
    ultimately show ?thesis using 1 by linarith
  qed
qed

lemma rnd_mono: assumes "a \<le> b" shows "rnd a \<le> rnd b"
proof -
  consider "0 < a" | "b < 0" | "a \<le> 0" "0 \<le> b" by linarith
  then show ?thesis
  proof cases
    case 1 then show ?thesis using assms by (rule rnd_mono_pos)
  next
    case 2
    then have "rnd (- b) \<le> rnd (- a)" using assms by (intro rnd_mono_pos) auto
    then show ?thesis by (simp add: rnd_minus)
  next
    case 3
    have "rnd a \<le> 0" using 3(1) rnd_neg [of a] by (cases "a = 0") auto
    moreover have "0 \<le> rnd b" using 3(2) rnd_pos [of b] by (cases "b = 0") auto
    ultimately show ?thesis by simp
  qed
qed

lemma rnd_eval:
  assumes "0 < z" "2 ^ 52 \<le> z * 2 ^ k" "z * 2 ^ k < 2 ^ 53"
  shows "rnd z = of_int (rhe (z * 2 ^ k)) / 2 ^ k"
proof -
  have p: "(2::real) powr of_int (52 - int k) = 2 ^ 52 / 2 ^ k"
    by (simp add: powr_diff powr_realpow)
  have q: "(2::real) powr (of_int (52 - int k) + 1) = 2 ^ 53 / 2 ^ k"
    by (simp add: powr_diff powr_add powr_realpow)
  have "2 powr of_int (52 - int k) \<le> z \<and> z < 2 powr (of_int (52 - int k) + 1)"
    unfolding p q using assms(2,3) by (simp add: pos_divide_le_eq pos_less_divide_eq)
  then have f: "\<lfloor>log 2 z\<rfloor> = 52 - int k"
    using floor_log_eq_powr_iff [of z 2 "52 - int k"] assms(1) by simp
  have "(2::real) powr of_int (\<lfloor>log 2 z\<rfloor> - 52) = 2 powr (- real k)"
    unfolding f by simp
  also have "\<dots> = 1 / 2 ^ k"
    by (simp add: powr_minus powr_realpow inverse_eq_divide)
  finally have s: "(2::real) powr of_int (\<lfloor>log 2 z\<rfloor> - 52) = 1 / 2 ^ k" .
  have z: "z \<noteq> 0" "\<bar>z\<bar> = z" "sgn z = 1" using assms(1) by simp_all
  show ?thesis unfolding rnd_def Let_def z(2) s using z by simp
qed

lemma arctan_series_bounds:
  fixes x :: real
  assumes "0 < x" "x \<le> 1"
  shows "(\<Sum>i<2 * n. (- 1) ^ i * (1 / real (i * 2 + 1) * x ^ (i * 2 + 1))) \<le> arctan x"
    and "arctan x \<le> (\<Sum>i<2 * n + 1. (- 1) ^ i * (1 / real (i * 2 + 1) * x ^ (i * 2 + 1)))"
proof -
  let ?a = "\<lambda>n. 1 / real (n * 2 + 1) * x ^ (n * 2 + 1)"
  have ax: "\<bar>x\<bar> \<le> 1" using assms by simp
  have a0: "0 < ?a 0" using assms by simp
  have "(\<Sum>i. (- 1) ^ i * ?a i)
          \<in> {\<Sum>i<2 * n. (- 1) ^ i * ?a i .. \<Sum>i<2 * n + 1. (- 1) ^ i * ?a i}"
    using summable_Leibniz(2) [OF zeroseq_arctan_series [OF ax] monoseq_arctan_series [OF ax]] a0
    by blast
  moreover have "arctan x = (\<Sum>i. (- 1) ^ i * ?a i)" by (rule arctan_series [OF ax])
  ultimately show
    "(\<Sum>i<2 * n. (- 1) ^ i * ?a i) \<le> arctan x"
    "arctan x \<le> (\<Sum>i<2 * n + 1. (- 1) ^ i * ?a i)"
    by simp_all
qed

lemma arctan_fifth_lower:
  "(157490522761940959144868 / 797842276096343994140625) \<le> arctan (1 / 5 :: real)"
proof -
  have "(\<Sum>i<2 * 6. (- 1) ^ i * (1 / real (i * 2 + 1) * (1 / 5) ^ (i * 2 + 1)))
          \<le> arctan (1 / 5 :: real)"
    by (rule arctan_series_bounds(1)) simp_all
  moreover have
    "(\<Sum>i<2 * 6. (- 1) ^ i * (1 / real (i * 2 + 1) * (1 / 5 :: real) ^ (i * 2 + 1))) = (157490522761940959144868 / 797842276096343994140625)"
    by (simp add: eval_nat_numeral lessThan_Suc)
  ultimately show ?thesis by simp
qed

lemma arctan_239_upper:
  "arctan (1 / 239 :: real) \<le> (48941844013 / 11697168977985)"
proof -
  have "arctan (1 / 239 :: real)
          \<le> (\<Sum>i<2 * 1 + 1. (- 1) ^ i * (1 / real (i * 2 + 1) * (1 / 239) ^ (i * 2 + 1)))"
    by (rule arctan_series_bounds(2)) simp_all
  moreover have
    "(\<Sum>i<2 * 1 + 1. (- 1) ^ i * (1 / real (i * 2 + 1) * (1 / 239 :: real) ^ (i * 2 + 1)))
       = (48941844013 / 11697168977985)"
    by (simp add: eval_nat_numeral lessThan_Suc)
  ultimately show ?thesis by simp
qed

lemma np_pi_less_pi: "np_pi < pi"
proof -
  have "pi = 16 * arctan (1 / 5) - 4 * arctan (1 / 239)"
    using machin by simp
  moreover have "16 * ((157490522761940959144868 / 797842276096343994140625) :: real) - 4 * ((48941844013 / 11697168977985)) \<le> 16 * arctan (1 / 5) - 4 * arctan (1 / 239)"
    using arctan_fifth_lower arctan_239_upper by linarith
  moreover have "np_pi < 16 * ((157490522761940959144868 / 797842276096343994140625) :: real) - 4 * ((48941844013 / 11697168977985))"
    by (simp add: np_pi_def)
  ultimately show ?thesis by linarith
qed

lemma two_less_np_pi: "2 < np_pi"
  by (simp add: np_pi_def)

text \<open>
  The doubles met when the code is evaluated at concrete inputs.  The lemmas named
  \<open>xr_\<close> follow \<open>x = 99.94238488797393\<close>, \<open>y = 44.37\<close>; those named \<open>x0_\<close> follow the
  double that \<open>100 - 366/105\<close> evaluates to, with \<open>y = 50\<close>.
\<close>

lemma lit_7_32_value: "rnd (7.32) = 1030198414761001 / 2 ^ 47"
proof -
  have "rnd (7.32) = of_int (rhe (7.32 * 2 ^ 50)) / 2 ^ 50"
    by (rule rnd_eval) simp_all
  also have "rhe (7.32 * 2 ^ 50) = 8241587318088008"
    by (simp add: rhe_def)
  finally show ?thesis by simp
qed

lemma half_7_32_value: "rnd ((1030198414761001 / 2 ^ 47) / 2) = 1030198414761001 / 2 ^ 48"
proof -
  have "rnd ((1030198414761001 / 2 ^ 47) / 2) = of_int (rhe (((1030198414761001 / 2 ^ 47) / 2) * 2 ^ 51)) / 2 ^ 51"
    by (rule rnd_eval) simp_all
  also have "rhe (((1030198414761001 / 2 ^ 47) / 2) * 2 ^ 51) = 8241587318088008"
    by (simp add: rhe_def)
  finally show ?thesis by simp
qed

lemma half_7_32_squared: "rnd ((1030198414761001 / 2 ^ 48) * (1030198414761001 / 2 ^ 48)) = 235657887376579 / 2 ^ 44"
proof -
  have "rnd ((1030198414761001 / 2 ^ 48) * (1030198414761001 / 2 ^ 48)) = of_int (rhe (((1030198414761001 / 2 ^ 48) * (1030198414761001 / 2 ^ 48)) * 2 ^ 49)) / 2 ^ 49"
    by (rule rnd_eval) simp_all
  also have "rhe (((1030198414761001 / 2 ^ 48) * (1030198414761001 / 2 ^ 48)) * 2 ^ 49) = 7541052396050528"
    by (simp add: rhe_def)
  finally show ?thesis by simp
qed

lemma rnd_np_pi: "rnd (884279719003555 / 2 ^ 48) = 884279719003555 / 2 ^ 48"
proof -
  have "rnd (884279719003555 / 2 ^ 48) = of_int (rhe ((884279719003555 / 2 ^ 48) * 2 ^ 51)) / 2 ^ 51"
    by (rule rnd_eval) simp_all
  also have "rhe ((884279719003555 / 2 ^ 48) * 2 ^ 51) = 7074237752028440"
    by (simp add: rhe_def)
  finally show ?thesis by simp
qed

lemma rnd_two: "rnd (2) = 2"
proof -
  have "rnd (2) = of_int (rhe (2 * 2 ^ 51)) / 2 ^ 51"
    by (rule rnd_eval) simp_all
  also have "rhe (2 * 2 ^ 51) = 4503599627370496"
    by (simp add: rhe_def)
  finally show ?thesis by simp
qed

lemma rnd_one: "rnd (1) = 1"
proof -
  have "rnd (1) = of_int (rhe (1 * 2 ^ 52)) / 2 ^ 52"
    by (rule rnd_eval) simp_all
  also have "rhe (1 * 2 ^ 52) = 4503599627370496"
    by (simp add: rhe_def)
  finally show ?thesis by simp
qed

lemma xr_value: "rnd (99.94238488797393) = 3516410057343735 / 2 ^ 45"
proof -
  have "rnd (99.94238488797393) = of_int (rhe (99.94238488797393 * 2 ^ 46)) / 2 ^ 46"
    by (rule rnd_eval) simp_all
  also have "rhe (99.94238488797393 * 2 ^ 46) = 7032820114687470"
    by (simp add: rhe_def)
  finally show ?thesis by simp
qed

lemma yr_value: "rnd (44.37) = 6244522358325903 / 2 ^ 47"
proof -
  have "rnd (44.37) = of_int (rhe (44.37 * 2 ^ 47)) / 2 ^ 47"
    by (rule rnd_eval) simp_all
  also have "rhe (44.37 * 2 ^ 47) = 6244522358325903"
    by (simp add: rhe_def)
  finally show ?thesis by simp
qed

lemma xr_m_x: "rnd (100 - (3516410057343735 / 2 ^ 45)) = 2027151539465 / 2 ^ 45"
proof -
  have "rnd (100 - (3516410057343735 / 2 ^ 45)) = of_int (rhe ((100 - (3516410057343735 / 2 ^ 45)) * 2 ^ 57)) / 2 ^ 57"
    by (rule rnd_eval) simp_all
  also have "rhe ((100 - (3516410057343735 / 2 ^ 45)) * 2 ^ 57) = 8303212705648640"
    by (simp add: rhe_def)
  finally show ?thesis by simp
qed

lemma xr_a1: "rnd ((2027151539465 / 2 ^ 45) * 105) = 212850911643825 / 2 ^ 45"
proof -
  have "rnd ((2027151539465 / 2 ^ 45) * 105) = of_int (rhe (((2027151539465 / 2 ^ 45) * 105) * 2 ^ 50)) / 2 ^ 50"
    by (rule rnd_eval) simp_all
  also have "rhe (((2027151539465 / 2 ^ 45) * 105) * 2 ^ 50) = 6811229172602400"
    by (simp add: rhe_def)
  finally show ?thesis by simp
qed

lemma xr_t_x: "rnd ((212850911643825 / 2 ^ 45) / 100) = 8514036465753 / 2 ^ 47"
proof -
  have "rnd ((212850911643825 / 2 ^ 45) / 100) = of_int (rhe (((212850911643825 / 2 ^ 45) / 100) * 2 ^ 57)) / 2 ^ 57"
    by (rule rnd_eval) simp_all
  also have "rhe (((212850911643825 / 2 ^ 45) / 100) * 2 ^ 57) = 8718373340931072"
    by (simp add: rhe_def)
  finally show ?thesis by simp
qed

lemma xr_c: "rnd (50 - (6244522358325903 / 2 ^ 47)) = 792352059440497 / 2 ^ 47"
proof -
  have "rnd (50 - (6244522358325903 / 2 ^ 47)) = of_int (rhe ((50 - (6244522358325903 / 2 ^ 47)) * 2 ^ 50)) / 2 ^ 50"
    by (rule rnd_eval) simp_all
  also have "rhe ((50 - (6244522358325903 / 2 ^ 47)) * 2 ^ 50) = 6338816475523976"
    by (simp add: rhe_def)
  finally show ?thesis by simp
qed

lemma xr_b1: "rnd ((792352059440497 / 2 ^ 47) * 65) = 3218930241477019 / 2 ^ 43"
proof -
  have "rnd ((792352059440497 / 2 ^ 47) * 65) = of_int (rhe (((792352059440497 / 2 ^ 47) * 65) * 2 ^ 44)) / 2 ^ 44"
    by (rule rnd_eval) simp_all
  also have "rhe (((792352059440497 / 2 ^ 47) * 65) * 2 ^ 44) = 6437860482954038"
    by (simp add: rhe_def)
  finally show ?thesis by simp
qed

lemma xr_t_y: "rnd ((3218930241477019 / 2 ^ 43) / 100) = 8240461418181169 / 2 ^ 51"
proof -
  have "rnd ((3218930241477019 / 2 ^ 43) / 100) = of_int (rhe (((3218930241477019 / 2 ^ 43) / 100) * 2 ^ 51)) / 2 ^ 51"
    by (rule rnd_eval) simp_all
  also have "rhe (((3218930241477019 / 2 ^ 43) / 100) * 2 ^ 51) = 8240461418181169"
    by (simp add: rhe_def)
  finally show ?thesis by simp
qed

lemma xr_p1: "rnd ((8514036465753 / 2 ^ 47) * (8514036465753 / 2 ^ 47)) = 2109702238235967 / 2 ^ 59"
proof -
  have "rnd ((8514036465753 / 2 ^ 47) * (8514036465753 / 2 ^ 47)) = of_int (rhe (((8514036465753 / 2 ^ 47) * (8514036465753 / 2 ^ 47)) * 2 ^ 61)) / 2 ^ 61"
    by (rule rnd_eval) simp_all
  also have "rhe (((8514036465753 / 2 ^ 47) * (8514036465753 / 2 ^ 47)) * 2 ^ 61) = 8438808952943868"
    by (simp add: rhe_def)
  finally show ?thesis by simp
qed

lemma xr_p2: "rnd ((8240461418181169 / 2 ^ 51) * (8240461418181169 / 2 ^ 51)) = 7538992139958501 / 2 ^ 49"
proof -
  have "rnd ((8240461418181169 / 2 ^ 51) * (8240461418181169 / 2 ^ 51)) = of_int (rhe (((8240461418181169 / 2 ^ 51) * (8240461418181169 / 2 ^ 51)) * 2 ^ 49)) / 2 ^ 49"
    by (rule rnd_eval) simp_all
  also have "rhe (((8240461418181169 / 2 ^ 51) * (8240461418181169 / 2 ^ 51)) * 2 ^ 49) = 7538992139958501"
    by (simp add: rhe_def)
  finally show ?thesis by simp
qed

lemma xr_s: "rnd ((2109702238235967 / 2 ^ 59) + (7538992139958501 / 2 ^ 49)) = 235657887376579 / 2 ^ 44"
proof -
  have "rnd ((2109702238235967 / 2 ^ 59) + (7538992139958501 / 2 ^ 49)) = of_int (rhe (((2109702238235967 / 2 ^ 59) + (7538992139958501 / 2 ^ 49)) * 2 ^ 49)) / 2 ^ 49"
    by (rule rnd_eval) simp_all
  also have "rhe (((2109702238235967 / 2 ^ 59) + (7538992139958501 / 2 ^ 49)) * 2 ^ 49) = 7541052396050528"
    by (simp add: rhe_def)
  finally show ?thesis by simp
qed

lemma x0_q: "rnd (366 / 105) = 1962282694782859 / 2 ^ 49"
proof -
  have "rnd (366 / 105) = of_int (rhe ((366 / 105) * 2 ^ 51)) / 2 ^ 51"
    by (rule rnd_eval) simp_all
  also have "rhe ((366 / 105) * 2 ^ 51) = 7849130779131436"
    by (simp add: rhe_def)
  finally show ?thesis by simp
qed

lemma x0_value: "rnd (100 - (1962282694782859 / 2 ^ 49)) = 6791589080918543 / 2 ^ 46"
proof -
  have "rnd (100 - (1962282694782859 / 2 ^ 49)) = of_int (rhe ((100 - (1962282694782859 / 2 ^ 49)) * 2 ^ 46)) / 2 ^ 46"
    by (rule rnd_eval) simp_all
  also have "rhe ((100 - (1962282694782859 / 2 ^ 49)) * 2 ^ 46) = 6791589080918543"
    by (simp add: rhe_def)
  finally show ?thesis by simp
qed

lemma x0_m_x: "rnd (100 - (6791589080918543 / 2 ^ 46)) = 245285336847857 / 2 ^ 46"
proof -
  have "rnd (100 - (6791589080918543 / 2 ^ 46)) = of_int (rhe ((100 - (6791589080918543 / 2 ^ 46)) * 2 ^ 51)) / 2 ^ 51"
    by (rule rnd_eval) simp_all
  also have "rhe ((100 - (6791589080918543 / 2 ^ 46)) * 2 ^ 51) = 7849130779131424"
    by (simp add: rhe_def)
  finally show ?thesis by simp
qed

lemma x0_a1: "rnd ((245285336847857 / 2 ^ 46) * 105) = 3219370046128123 / 2 ^ 43"
proof -
  have "rnd ((245285336847857 / 2 ^ 46) * 105) = of_int (rhe (((245285336847857 / 2 ^ 46) * 105) * 2 ^ 44)) / 2 ^ 44"
    by (rule rnd_eval) simp_all
  also have "rhe (((245285336847857 / 2 ^ 46) * 105) * 2 ^ 44) = 6438740092256246"
    by (simp add: rhe_def)
  finally show ?thesis by simp
qed

lemma x0_t_x: "rnd ((3219370046128123 / 2 ^ 43) / 100) = 8241587318087995 / 2 ^ 51"
proof -
  have "rnd ((3219370046128123 / 2 ^ 43) / 100) = of_int (rhe (((3219370046128123 / 2 ^ 43) / 100) * 2 ^ 51)) / 2 ^ 51"
    by (rule rnd_eval) simp_all
  also have "rhe (((3219370046128123 / 2 ^ 43) / 100) * 2 ^ 51) = 8241587318087995"
    by (simp add: rhe_def)
  finally show ?thesis by simp
qed

lemma x0_p1: "rnd ((8241587318087995 / 2 ^ 51) * (8241587318087995 / 2 ^ 51)) = 942631549506313 / 2 ^ 46"
proof -
  have "rnd ((8241587318087995 / 2 ^ 51) * (8241587318087995 / 2 ^ 51)) = of_int (rhe (((8241587318087995 / 2 ^ 51) * (8241587318087995 / 2 ^ 51)) * 2 ^ 49)) / 2 ^ 49"
    by (rule rnd_eval) simp_all
  also have "rhe (((8241587318087995 / 2 ^ 51) * (8241587318087995 / 2 ^ 51)) * 2 ^ 49) = 7541052396050504"
    by (simp add: rhe_def)
  finally show ?thesis by simp
qed

lemma x0_s: "rnd ((942631549506313 / 2 ^ 46)) = 942631549506313 / 2 ^ 46"
proof -
  have "rnd ((942631549506313 / 2 ^ 46)) = of_int (rhe (((942631549506313 / 2 ^ 46)) * 2 ^ 49)) / 2 ^ 49"
    by (rule rnd_eval) simp_all
  also have "rhe (((942631549506313 / 2 ^ 46)) * 2 ^ 49) = 7541052396050504"
    by (simp add: rhe_def)
  finally show ?thesis by simp
qed

lemma lit_7_32_pos: "0 < lit_7_32"
  unfolding lit_7_32_def by (rule rnd_pos) simp

lemma arctan_like_correctly_rounded: "arctan_like (np_arctan correctly_rounded)"
proof -
  have z: "rnd (arctan 0) = 0" by simp
  have p: "0 < rnd (arctan q) \<and> rnd (arctan q) \<le> 2" if "0 < q" for q :: real
  proof -
    have "0 < arctan q" using that by simp
    then have "0 < rnd (arctan q)" by (rule rnd_pos)
    moreover have "arctan q \<le> 2"
      using arctan_ubound [of q] pi_half_less_two by linarith
    then have "rnd (arctan q) \<le> rnd 2" by (rule rnd_mono)
    ultimately show ?thesis by (simp only: rnd_two)
  qed
  have n: "- 2 \<le> rnd (arctan q) \<and> rnd (arctan q) < 0" if "q < 0" for q :: real
  proof -
    have "arctan q < 0" using that by simp
    then have "rnd (arctan q) < 0" by (rule rnd_neg)
    moreover have "- 2 \<le> arctan q"
      using arctan_lbound [of q] pi_half_less_two by linarith
    then have "rnd (- 2) \<le> rnd (arctan q)" by (rule rnd_mono)
    then have "- 2 \<le> rnd (arctan q)" by (simp only: rnd_minus rnd_two)
    ultimately show ?thesis by simp
  qed
  show ?thesis
    unfolding arctan_like_def using z p n by (simp add: correctly_rounded_def)
qed

lemma compute_shot_angle_f64_raises_iff:
  "(compute_shot_angle_f64 L x y = Inl ZeroDivisionError)
     = (divisor_f64 L (fst (transform_coordinates_f64 x y))
          (snd (transform_coordinates_f64 x y)) = 0)"
  by (auto simp add: compute_shot_angle_f64_def f64_truediv_def Let_def split: prod.splits)

lemma divisor_f64_zero_iff:
  "(divisor_f64 L t_x t_y = 0)
     = (rnd (py_pow2 L t_x + py_pow2 L t_y) = py_pow2 L (rnd (lit_7_32 / 2)))"
  by (simp add: divisor_f64_def rnd_eq_0_iff)

text \<open>
  Claim C2, amended.  For \<open>x\<close>, \<open>y\<close> in \<open>[0, 100]\<close> at which the rounded divisor is not
  zero, the shot angle is returned, is at least 0 and strictly less than \<open>\<pi>\<close>, and
  is strictly positive whenever \<open>x < 100\<close>.  Of the arctangent routine only the sign
  of its result, its value at 0 and a bound of 2 on its magnitude are used; the
  routine for \<open>** 2\<close> is arbitrary.
\<close>

theorem compute_shot_angle_f64_range:
  assumes "0 \<le> x" "x \<le> 100" "0 \<le> y" "y \<le> 100"
    and al: "arctan_like (np_arctan L)"
    and t: "transform_coordinates_f64 x y = (t_x, t_y)"
    and nz: "divisor_f64 L t_x t_y \<noteq> 0"
  shows "\<exists>a. compute_shot_angle_f64 L x y = Inr a \<and> 0 \<le> a \<and> a < pi \<and> (x < 100 \<longrightarrow> 0 < a)"
proof -
  define d where "d = divisor_f64 L t_x t_y"
  define num where "num = rnd (lit_7_32 * t_x)"
  define q where "q = rnd (num / d)"
  define ang where "ang = np_arctan L q"
  define a where "a = (if ang < 0 then rnd (np_pi + ang) else ang)"
  have d: "d \<noteq> 0" using nz by (simp add: d_def)
  have res: "compute_shot_angle_f64 L x y = Inr a"
    using nz
    by (simp add: compute_shot_angle_f64_def t f64_truediv_def Let_def a_def ang_def
        q_def num_def d_def)
  have tx: "t_x = rnd (rnd (rnd (100 - x) * 105) / 100)"
    using t by (simp add: transform_coordinates_f64_def Let_def)
  have bound: "0 < a \<and> a < pi" if q: "q \<noteq> 0"
  proof (cases "0 < q")
    case True
    then have "0 < ang \<and> ang \<le> 2"
      using al unfolding arctan_like_def ang_def by blast
    then show ?thesis
      unfolding a_def using two_less_np_pi np_pi_less_pi by auto
  next
    case False
    then have "q < 0" using q by simp
    then have g: "- 2 \<le> ang \<and> ang < 0"
      using al unfolding arctan_like_def ang_def by blast
    then have "0 < np_pi + ang" using two_less_np_pi by linarith
    then have l: "0 < rnd (np_pi + ang)" by (rule rnd_pos)
    have "np_pi + ang \<le> np_pi" using g by simp
    then have "rnd (np_pi + ang) \<le> rnd np_pi" by (rule rnd_mono)
    also have "rnd np_pi = np_pi" unfolding np_pi_def by (rule rnd_np_pi)
    finally have "rnd (np_pi + ang) < pi" using np_pi_less_pi by linarith
    then show ?thesis unfolding a_def using g l by simp
  qed
  show ?thesis
  proof (cases "x < 100")
    case True
    then have "0 < 100 - x" by simp
    then have "0 < rnd (100 - x)" by (rule rnd_pos)
    then have "0 < rnd (100 - x) * 105" by simp
    then have "0 < rnd (rnd (100 - x) * 105)" by (rule rnd_pos)
    then have "0 < rnd (rnd (100 - x) * 105) / 100" by simp
    then have "0 < t_x" unfolding tx by (rule rnd_pos)
    then have "0 < lit_7_32 * t_x" using lit_7_32_pos by simp
    then have "0 < num" unfolding num_def by (rule rnd_pos)
    then have "num / d \<noteq> 0" using d by simp
    then have "q \<noteq> 0" unfolding q_def by (simp add: rnd_eq_0_iff)
    then have "0 < a \<and> a < pi" by (rule bound)
    then show ?thesis using res by auto
  next
    case False
    then have "x = 100" using assms(2) by simp
    then have "t_x = 0" by (simp add: tx)
    then have "q = 0" by (simp add: q_def num_def)
    then have "ang = 0" using al unfolding arctan_like_def ang_def by simp
    then have "a = 0" by (simp add: a_def)
    then show ?thesis using res \<open>x = 100\<close> pi_gt_zero by auto
  qed
qed

lemma rnd_50: "rnd (50) = 50"
proof -
  have "rnd (50) = of_int (rhe (50 * 2 ^ 47)) / 2 ^ 47"
    by (rule rnd_eval) simp_all
  also have "rhe (50 * 2 ^ 47) = 7036874417766400"
    by (simp add: rhe_def)
  finally show ?thesis by simp
qed

lemma rnd_3250: "rnd (3250) = 3250"
proof -
  have "rnd (3250) = of_int (rhe (3250 * 2 ^ 41)) / 2 ^ 41"
    by (rule rnd_eval) simp_all
  also have "rhe (3250 * 2 ^ 41) = 7146825580544000"
    by (simp add: rhe_def)
  finally show ?thesis by simp
qed

lemma rnd_65_2: "rnd (65 / 2) = 65 / 2"
proof -
  have "rnd (65 / 2) = of_int (rhe ((65 / 2) * 2 ^ 47)) / 2 ^ 47"
    by (rule rnd_eval) simp_all
  also have "rhe ((65 / 2) * 2 ^ 47) = 4573968371548160"
    by (simp add: rhe_def)
  finally show ?thesis by simp
qed

lemma rnd_4225_4: "rnd (4225 / 4) = 4225 / 4"
proof -
  have "rnd (4225 / 4) = of_int (rhe ((4225 / 4) * 2 ^ 42)) / 2 ^ 42"
    by (rule rnd_eval) simp_all
  also have "rhe ((4225 / 4) * 2 ^ 42) = 4645436627353600"
    by (simp add: rhe_def)
  finally show ?thesis by simp
qed

lemma rnd_10: "rnd (10) = 10"
proof -
  have "rnd (10) = of_int (rhe (10 * 2 ^ 49)) / 2 ^ 49"
    by (rule rnd_eval) simp_all
  also have "rhe (10 * 2 ^ 49) = 5629499534213120"
    by (simp add: rhe_def)
  finally show ?thesis by simp
qed

lemma rnd_1050: "rnd (1050) = 1050"
proof -
  have "rnd (1050) = of_int (rhe (1050 * 2 ^ 42)) / 2 ^ 42"
    by (rule rnd_eval) simp_all
  also have "rhe (1050 * 2 ^ 42) = 4617948836659200"
    by (simp add: rhe_def)
  finally show ?thesis by simp
qed

lemma rnd_21_2: "rnd (21 / 2) = 21 / 2"
proof -
  have "rnd (21 / 2) = of_int (rhe ((21 / 2) * 2 ^ 49)) / 2 ^ 49"
    by (rule rnd_eval) simp_all
  also have "rhe ((21 / 2) * 2 ^ 49) = 5910974510923776"
    by (simp add: rhe_def)
  finally show ?thesis by simp
qed

lemma rnd_441_4: "rnd (441 / 4) = 441 / 4"
proof -
  have "rnd (441 / 4) = of_int (rhe ((441 / 4) * 2 ^ 46)) / 2 ^ 46"
    by (rule rnd_eval) simp_all
  also have "rhe ((441 / 4) * 2 ^ 46) = 7758154045587456"
    by (simp add: rhe_def)
  finally show ?thesis by simp
qed

lemma pow2_correctly_rounded: "py_pow2 correctly_rounded z = rnd (z * z)"
  by (simp add: correctly_rounded_def)

lemma arctan_correctly_rounded: "np_arctan correctly_rounded z = rnd (arctan z)"
  by (simp add: correctly_rounded_def)

lemma half_width_squared:
  "rnd (rnd (lit_7_32 / 2) * rnd (lit_7_32 / 2)) = 235657887376579 / 2 ^ 44"
  unfolding lit_7_32_def lit_7_32_value half_7_32_value half_7_32_squared by (rule refl)

lemma xr_in_domain:
  "0 \<le> rnd 99.94238488797393 \<and> rnd 99.94238488797393 \<le> 100
   \<and> 0 \<le> rnd 44.37 \<and> rnd 44.37 \<le> 100"
  unfolding xr_value yr_value by simp

lemma xr_transform:
  "transform_coordinates_f64 (rnd 99.94238488797393) (rnd 44.37)
     = (8514036465753 / 2 ^ 47, 8240461418181169 / 2 ^ 51)"
proof -
  have "rnd (6244522358325903 / 2 ^ 47 - 50) = - rnd (50 - 6244522358325903 / 2 ^ 47)"
    using rnd_minus [of "50 - 6244522358325903 / 2 ^ 47"] by simp
  then have c: "\<bar>rnd (6244522358325903 / 2 ^ 47 - 50)\<bar> = 792352059440497 / 2 ^ 47"
    unfolding xr_c by simp
  show ?thesis
    unfolding transform_coordinates_f64_def Let_def xr_value yr_value xr_m_x xr_a1 xr_t_x
      c xr_b1 xr_t_y
    by (rule refl)
qed

lemma xr_divisor:
  "divisor_f64 correctly_rounded (8514036465753 / 2 ^ 47) (8240461418181169 / 2 ^ 51) = 0"
  unfolding divisor_f64_zero_iff pow2_correctly_rounded half_width_squared xr_p1 xr_p2 xr_s
  by (rule refl)

lemma x0_transform:
  "transform_coordinates_f64 (rnd (100 - rnd (366 / 105))) 50
     = (8241587318087995 / 2 ^ 51, 0)"
proof -
  have c: "\<bar>rnd (50 - 50 :: real)\<bar> = 0" by simp
  have z: "rnd (rnd ((0::real) * 65) / 100) = 0" by simp
  show ?thesis
    unfolding transform_coordinates_f64_def Let_def x0_q x0_value x0_m_x x0_a1 x0_t_x c z
    by (rule refl)
qed

lemma x0_divisor:
  "divisor_f64 correctly_rounded (8241587318087995 / 2 ^ 51) 0 \<noteq> 0"
proof -
  have z: "rnd ((0::real) * 0) = 0" by simp
  have "rnd (rnd (8241587318087995 / 2 ^ 51 * (8241587318087995 / 2 ^ 51)) + rnd (0 * 0))
          = 942631549506313 / 2 ^ 46"
    unfolding x0_p1 z add_0_right x0_s by (rule refl)
  then show ?thesis
    unfolding divisor_f64_zero_iff pow2_correctly_rounded half_width_squared by simp
qed

lemma goal_line_transform: "transform_coordinates_f64 100 0 = (0, 65 / 2)"
  by (simp add: transform_coordinates_f64_def rnd_minus rnd_50 rnd_3250 rnd_65_2)

lemma goal_line_divisor: "divisor_f64 correctly_rounded 0 (65 / 2) \<noteq> 0"
  by (simp add: divisor_f64_zero_iff pow2_correctly_rounded half_width_squared rnd_4225_4)

lemma w_transform: "transform_coordinates_f64 90 50 = (21 / 2, 0)"
  by (simp add: transform_coordinates_f64_def rnd_10 rnd_1050 rnd_21_2)

lemma w_divisor: "divisor_f64 correctly_rounded (21 / 2) 0 \<noteq> 0"
  by (simp add: divisor_f64_zero_iff pow2_correctly_rounded half_width_squared rnd_441_4)

text \<open>
  Claim C2 as stated fails on the goal line: at \<open>x = 100\<close>, \<open>y = 0\<close> the transformed
  \<open>x\<close> coordinate is 0, the argument of the arctangent is 0 and the returned angle
  is 0, which is not strictly positive.
\<close>

theorem compute_shot_angle_f64_goal_line_zero:
  "compute_shot_angle_f64 correctly_rounded 100 0 = Inr 0"
  using goal_line_divisor
  by (simp add: compute_shot_angle_f64_def goal_line_transform f64_truediv_def
      arctan_correctly_rounded)

theorem compute_shot_angle_f64_range_witness:
  "\<exists>a. compute_shot_angle_f64 correctly_rounded 90 50 = Inr a \<and> 0 \<le> a \<and> a < pi \<and> 0 < a"
  using compute_shot_angle_f64_range [of 90 50 correctly_rounded "21 / 2" 0]
    arctan_like_correctly_rounded w_transform w_divisor
  by simp

text \<open>
  Claim C10 as stated fails at its own example: at the double that \<open>100 - 366/105\<close>
  evaluates to, with \<open>y = 50\<close>, the transformed \<open>x\<close> coordinate is
  \<open>3.6599999999999944\<close>, the rounded divisor is \<open>- 3 / 2^46\<close> and not zero, and an
  angle is returned.
\<close>

theorem claimed_point_returns_angle:
  "compute_shot_angle_f64 correctly_rounded (rnd (100 - rnd (366 / 105))) 50
     \<noteq> Inl ZeroDivisionError"
  unfolding compute_shot_angle_f64_raises_iff x0_transform fst_conv snd_conv
  by (rule x0_divisor)

text \<open>
  Claim C10, amended.  The shot angle is not total on \<open>[0, 100] \<times> [0, 100]\<close>: the
  computation raises \<open>ZeroDivisionError\<close>, and otherwise returns an angle, exactly
  where the rounded sum \<open>t_x ** 2 + t_y ** 2\<close> equals the rounded \<open>(7.32 / 2) ** 2\<close>,
  and the doubles \<open>x = 99.94238488797393\<close>, \<open>y = 44.37\<close> are such a point of the
  domain.
\<close>

theorem compute_shot_angle_f64_not_total:
  "(\<forall>L x y. (compute_shot_angle_f64 L x y = Inl ZeroDivisionError)
        = (case transform_coordinates_f64 x y of
             (t_x, t_y) \<Rightarrow>
               rnd (py_pow2 L t_x + py_pow2 L t_y) = py_pow2 L (rnd (lit_7_32 / 2))))
   \<and> (\<forall>L x y. (\<exists>a. compute_shot_angle_f64 L x y = Inr a)
        = (compute_shot_angle_f64 L x y \<noteq> Inl ZeroDivisionError))
   \<and> 0 \<le> rnd 99.94238488797393 \<and> rnd 99.94238488797393 \<le> 100
   \<and> 0 \<le> rnd 44.37 \<and> rnd 44.37 \<le> 100
   \<and> compute_shot_angle_f64 correctly_rounded (rnd 99.94238488797393) (rnd 44.37)
       = Inl ZeroDivisionError"
proof -
  have a: "(compute_shot_angle_f64 L x y = Inl ZeroDivisionError)
        = (case transform_coordinates_f64 x y of
             (t_x, t_y) \<Rightarrow>
               rnd (py_pow2 L t_x + py_pow2 L t_y) = py_pow2 L (rnd (lit_7_32 / 2)))"
    for L x y
    unfolding compute_shot_angle_f64_raises_iff divisor_f64_zero_iff
    by (simp split: prod.splits)
  have b: "(\<exists>a. compute_shot_angle_f64 L x y = Inr a)
        = (compute_shot_angle_f64 L x y \<noteq> Inl ZeroDivisionError)" for L x y
    by (auto simp add: compute_shot_angle_f64_def f64_truediv_def Let_def
        split: prod.splits)
  have c: "compute_shot_angle_f64 correctly_rounded (rnd 99.94238488797393) (rnd 44.37)
             = Inl ZeroDivisionError"
    unfolding compute_shot_angle_f64_raises_iff xr_transform fst_conv snd_conv
    by (rule xr_divisor)
  show ?thesis using a b c xr_in_domain by blast
qed

text \<open>
  Claim C4.  The claim promises a probability for every finite coordinate pair.  At
  the doubles \<open>x = 99.94238488797393\<close>, \<open>y = 44.37\<close> the angle computation divides by
  a divisor that is exactly zero, so \<open>compute_xg\<close> raises \<open>ZeroDivisionError\<close> and
  returns no probability, although the parameter file holds all three coefficients.
\<close>

theorem compute_xg_f64_raises:
  "compute_xg_f64 correctly_rounded
     [''../models/baseline_logistic_model.pkl'' \<mapsto>
                  [''Intercept'' \<mapsto> 0, ''dist'' \<mapsto> 0, ''angle'' \<mapsto> 0]]
     (rnd 99.94238488797393) (rnd 44.37) ''baseline_logistic_model.pkl'' default_model_dir
   = Inl ZeroDivisionError"
proof -
  have "compute_shot_angle_f64 correctly_rounded (rnd 99.94238488797393) (rnd 44.37)
          = Inl ZeroDivisionError"
    unfolding compute_shot_angle_f64_raises_iff xr_transform fst_conv snd_conv
    by (rule xr_divisor)
  then show ?thesis
    unfolding compute_xg_f64_def Let_def by simp
qed

lemma rnd_100: "rnd 100 = 100"
proof -
  have "rnd 100 = of_int (rhe (100 * 2 ^ 46)) / 2 ^ 46"
    by (rule rnd_eval) simp_all
  also have "rhe (100 * 2 ^ 46) = 7036874417766400"
    by (simp add: rhe_def)
  finally show ?thesis by simp
qed

lemma rnd_tiny: "rnd (1 / 2 ^ 54) = 1 / 2 ^ 54"
proof -
  have "rnd (1 / 2 ^ 54) = of_int (rhe (1 / 2 ^ 54 * 2 ^ 106)) / 2 ^ 106"
    by (rule rnd_eval) simp_all
  also have "rhe (1 / 2 ^ 54 * 2 ^ 106) = 4503599627370496"
    by (simp add: rhe_def)
  finally show ?thesis by simp
qed

lemma rnd_one_plus_tiny: "rnd (1 + 1 / 2 ^ 54) = 1"
proof -
  have "rnd (1 + 1 / 2 ^ 54) = of_int (rhe ((1 + 1 / 2 ^ 54) * 2 ^ 52)) / 2 ^ 52"
    by (rule rnd_eval) simp_all
  also have "rhe ((1 + 1 / 2 ^ 54) * 2 ^ 52) = 4503599627370496"
    by (simp add: rhe_def)
  finally show ?thesis by simp
qed

lemma exp_minus_100_tiny: "exp (- 100 :: real) \<le> 1 / 2 ^ 54"
proof -
  have "(2::real) \<le> exp 1" using exp_ge_add_one_self [of 1] by simp
  then have "(2::real) ^ 100 \<le> exp 1 ^ 100" by (rule power_mono) simp
  moreover have "exp (100::real) = exp 1 ^ 100"
    using exp_of_nat_mult [of 100 "1::real"] by simp
  ultimately have "(2::real) ^ 54 \<le> exp 100"
    using power_increasing [of 54 100 "2::real"] by simp
  then have "1 / exp (100::real) \<le> 1 / 2 ^ 54"
    by (intro divide_left_mono) simp_all
  then show ?thesis by (simp add: exp_minus inverse_eq_divide)
qed

lemma sigmoid_f64_saturates:
  "rnd (1 / rnd (1 + rnd (exp (- 100)))) = 1"
  and exp_minus_100_no_overflow: "rnd (exp (- 100)) \<le> max_f64"
proof -
  define ex :: real where "ex = rnd (exp (- 100))"
  have p: "0 < ex" unfolding ex_def by (rule rnd_pos) simp
  have "ex \<le> rnd (1 / 2 ^ 54)" unfolding ex_def by (rule rnd_mono) (rule exp_minus_100_tiny)
  then have u: "ex \<le> 1 / 2 ^ 54" by (simp only: rnd_tiny)
  have "rnd 1 \<le> rnd (1 + ex)" by (rule rnd_mono) (use p in simp)
  moreover have "rnd (1 + ex) \<le> rnd (1 + 1 / 2 ^ 54)" by (rule rnd_mono) (use u in simp)
  ultimately have "rnd (1 + ex) = 1" unfolding rnd_one rnd_one_plus_tiny by (rule antisym [rotated])
  then show "rnd (1 / rnd (1 + rnd (exp (- 100)))) = 1"
    unfolding ex_def by (simp add: rnd_one)
  have "(1::real) \<le> max_f64" by (simp add: max_f64_def)
  moreover have "(1 / 2 ^ 54 :: real) \<le> 1" by simp
  ultimately have m: "ex \<le> max_f64" using u by linarith
  show "rnd (exp (- 100)) \<le> max_f64"
    using m unfolding ex_def .
qed

lemma compute_shot_angle_f64_returns:
  assumes "transform_coordinates_f64 x y = (t_x, t_y)" "divisor_f64 L t_x t_y \<noteq> 0"
  shows "\<exists>a. compute_shot_angle_f64 L x y = Inr a"
  using assms by (simp add: compute_shot_angle_f64_def f64_truediv_def Let_def)

text \<open>
  In double precision the value of \<open>1 / (1 + exp (- s))\<close> is not always strictly
  below 1: with intercept 100 and zero coefficients for distance and angle the
  exponential is below \<open>2^-54\<close>, the sum \<open>1 + exp _\<close> rounds to 1 and the result is
  exactly 1.
\<close>

lemma compute_xg_f64_saturates:
  "compute_xg_f64 correctly_rounded
     [''../models/baseline_logistic_model.pkl'' \<mapsto>
        [''Intercept'' \<mapsto> 100, ''dist'' \<mapsto> 0, ''angle'' \<mapsto> 0]]
     90 50 ''baseline_logistic_model.pkl'' default_model_dir
   = Inr 1"
proof -
  obtain a where a: "compute_shot_angle_f64 correctly_rounded 90 50 = Inr a"
    using compute_shot_angle_f64_returns [OF w_transform w_divisor] by blast
  have e: "np_exp correctly_rounded z = rnd (exp z)" for z
    by (simp add: correctly_rounded_def)
  have n: "\<not> max_f64 < rnd (exp (- 100))"
    using exp_minus_100_no_overflow by (simp only: not_less)
  show ?thesis
    by (simp add: compute_xg_f64_def a load_params_def os_path_join_def default_model_dir_def
        series_getitem_def Let_def rnd_100 rnd_minus e sigmoid_f64_saturates n)
qed

section \<open>Properties of the training rows, the goal model and the scoreline matrix\<close>

lemma np_outer_length: "length (np_outer a b) = length a"
  by (simp add: np_outer_def)

lemma np_outer_row_length: "i < length a \<Longrightarrow> length (np_outer a b ! i) = length b"
  by (simp add: np_outer_def)

lemma np_outer_nth:
  "i < length a \<Longrightarrow> j < length b \<Longrightarrow> np_outer a b ! i ! j = a ! i * b ! j"
  by (simp add: np_outer_def)

lemma sum_list_np_outer: "sum_list (map sum_list (np_outer a b)) = sum_list a * sum_list b"
  by (induction a) (simp_all add: np_outer_def sum_list_const_mult distrib_right)

lemma np_outer_nonneg:
  assumes "\<forall>u \<in> set a. 0 \<le> u" "\<forall>v \<in> set b. 0 \<le> v"
  shows "\<forall>r \<in> set (np_outer a b). \<forall>c \<in> set r. 0 \<le> c"
  using assms by (auto simp add: np_outer_def)

lemma exp_partial_sum_le:
  fixes x :: real
  assumes "0 \<le> x"
  shows "(\<Sum>k<n. x ^ k / fact k) \<le> exp x"
proof -
  let ?f = "\<lambda>k. x ^ k /\<^sub>R fact k"
  have s: "?f sums exp x" by (rule exp_converges)
  then have sm: "summable ?f" by (rule sums_summable)
  have "sum ?f {..<n} \<le> suminf ?f"
    by (rule sum_le_suminf [OF sm]) (use assms in auto)
  also have "suminf ?f = exp x" by (rule sums_unique [OF s, symmetric])
  finally show ?thesis by (simp add: divide_inverse mult.commute)
qed

lemma poisson_pmf_nonneg: "0 \<le> mu \<Longrightarrow> 0 \<le> poisson_pmf k mu"
  by (simp add: poisson_pmf_def)

lemma poisson_vector_sum_le_1:
  assumes "0 \<le> mu"
  shows "sum_list (map (\<lambda>i. poisson_pmf i mu) [0 ..< n]) \<le> 1"
proof -
  have "sum_list (map (\<lambda>i. poisson_pmf i mu) [0 ..< n]) = (\<Sum>k<n. poisson_pmf k mu)"
    by (simp add: interv_sum_list_conv_sum_set_nat atLeast0LessThan)
  also have "\<dots> = exp (- mu) * (\<Sum>k<n. mu ^ k / fact k)"
    by (simp add: poisson_pmf_def sum_distrib_left mult.commute)
  also have "\<dots> \<le> exp (- mu) * exp mu"
    by (rule mult_left_mono [OF exp_partial_sum_le [OF assms]]) simp
  also have "\<dots> = 1" by (simp add: exp_minus)
  finally show ?thesis .
qed

lemma poisson_vector_sum_nonneg:
  assumes "0 \<le> mu"
  shows "0 \<le> sum_list (map (\<lambda>i. poisson_pmf i mu) [0 ..< n])"
  by (rule sum_list_nonneg) (use assms in \<open>auto simp: poisson_pmf_nonneg\<close>)

lemma predict_positive: "predict gm t opp h = Inr lam \<Longrightarrow> 0 < lam"
  by (auto simp add: predict_def split: option.splits)

lemma simulate_matches_returns:
  assumes "predict gm hs as 1 = Inr lh" "predict gm as hs 0 = Inr la"
  shows "simulate_matches gm hs as n
    = Inr (np_outer (map (\<lambda>i. poisson_pmf i lh) [0 ..< nat (n + 1)])
                    (map (\<lambda>i. poisson_pmf i la) [0 ..< nat (n + 1)]))"
  using assms by (simp add: simulate_matches_def py_range0_def)

lemma partial_sum_8: "(\<Sum>k<8. 1 ^ k / fact k :: real) = 685 / 252"
  by (simp add: eval_nat_numeral lessThan_Suc)

lemma euler_lower: "685 / 252 \<le> exp (1::real)"
  using exp_partial_sum_le [of 1 8] by (simp only: partial_sum_8)

lemma euler_upper: "exp (1::real) \<le> 685 / 252 + 3 / 40320"
proof -
  obtain t :: real where t: "\<bar>t\<bar> \<le> \<bar>1\<bar>"
    and e: "exp 1 = (\<Sum>m<8. 1 ^ m / fact m) + (exp t / fact 8) * 1 ^ 8"
    using Maclaurin_exp_le [of 1 8] by blast
  have "exp t \<le> exp 1" using t by simp
  also have "\<dots> \<le> 3" by (rule exp_le)
  finally have "exp t \<le> 3" .
  have f8: "fact 8 = (40320::real)" by (simp add: eval_nat_numeral)
  have r: "exp t / fact 8 \<le> 3 / 40320"
    unfolding f8 using \<open>exp t \<le> 3\<close> by simp
  have "exp 1 = 685 / 252 + exp t / fact 8"
    using e unfolding partial_sum_8 by simp
  then show ?thesis using r by linarith
qed

lemma exp_3_bounds: "20.07 \<le> exp (3::real) \<and> exp (3::real) \<le> 20.09"
proof -
  have c: "exp (3::real) = exp 1 ^ 3"
    using exp_of_nat_mult [of 3 "1::real"] by simp
  have l: "(685 / 252 :: real) ^ 3 \<le> exp 1 ^ 3"
    by (rule power_mono [OF euler_lower]) simp
  have u: "exp (1::real) ^ 3 \<le> (685 / 252 + 3 / 40320) ^ 3"
    by (rule power_mono [OF euler_upper]) simp
  have "(20.07::real) \<le> (685 / 252) ^ 3" by (simp add: power3_eq_cube)
  moreover have "(685 / 252 + 3 / 40320 :: real) ^ 3 \<le> 20.09"
    by (simp add: power3_eq_cube)
  ultimately show ?thesis unfolding c using l u by linarith
qed

lemma poisson_cell_2_1:
  "\<bar>(4 * exp (- 2) / 2) * (1 * exp (- 1) / 1) - 0.0996\<bar> \<le> (0.0001::real)"
proof -
  have "(4 * exp (- 2) / 2) * (1 * exp (- 1) / 1) = 2 * exp (- 3 :: real)"
    by (simp add: mult_exp_exp)
  also have "\<dots> = 2 / exp 3" by (simp add: exp_minus divide_inverse)
  finally have eq: "(4 * exp (- 2) / 2) * (1 * exp (- 1) / 1) = 2 / exp (3::real)" .
  have "2 / exp (3::real) \<le> 2 / 20.07"
    using exp_3_bounds by (intro divide_left_mono) auto
  moreover have "2 / 20.09 \<le> 2 / exp (3::real)"
    using exp_3_bounds by (intro divide_left_mono) auto
  moreover have "2 / 20.07 \<le> (0.0997::real)" "(0.0995::real) \<le> 2 / 20.09"
    by simp_all
  ultimately have "0.0995 \<le> 2 / exp (3::real) \<and> 2 / exp (3::real) \<le> 0.0997"
    by linarith
  then show ?thesis
    unfolding eq by (simp only: abs_le_iff) linarith
qed

text \<open>
  Claim C1.  When the model predicts the rate \<open>lh\<close> for the home side (home = 1) and
  the rate \<open>la\<close> for the away side (home = 0) and \<open>max_goals \<ge> 0\<close>, \<open>simulate_matches\<close>
  returns a matrix with \<open>max_goals + 1\<close> rows of \<open>max_goals + 1\<close> cells whose cell
  \<open>(i, j)\<close> is the product of the Poisson probabilities \<open>lh ^ i * exp (- lh) / i!\<close> and
  \<open>la ^ j * exp (- la) / j!\<close>; with rates 2 and 1 and \<open>max_goals = 5\<close> the cell \<open>(2, 1)\<close>
  is \<open>(4 * exp (- 2) / 2) * (1 * exp (- 1) / 1)\<close>, which is within 0.0001 of 0.0996.
\<close>

theorem simulate_matches_scoreline:
  assumes "0 \<le> max_goals"
    and "predict gm home_side away_side 1 = Inr lh"
    and "predict gm away_side home_side 0 = Inr la"
  shows "\<exists>M. simulate_matches gm home_side away_side max_goals = Inr M
           \<and> length M = nat (max_goals + 1)
           \<and> (\<forall>i < nat (max_goals + 1). length (M ! i) = nat (max_goals + 1))
           \<and> (\<forall>i < nat (max_goals + 1). \<forall>j < nat (max_goals + 1).
                 M ! i ! j = (lh ^ i * exp (- lh) / fact i) * (la ^ j * exp (- la) / fact j))
           \<and> (lh = 2 \<and> la = 1 \<and> max_goals = 5 \<longrightarrow>
                 M ! 2 ! 1 = (4 * exp (- 2) / 2) * (1 * exp (- 1) / 1)
                 \<and> \<bar>M ! 2 ! 1 - 0.0996\<bar> \<le> 0.0001)"
proof -
  define a where "a = map (\<lambda>i. poisson_pmf i lh) [0 ..< nat (max_goals + 1)]"
  define b where "b = map (\<lambda>i. poisson_pmf i la) [0 ..< nat (max_goals + 1)]"
  have r: "simulate_matches gm home_side away_side max_goals = Inr (np_outer a b)"
    unfolding a_def b_def using assms(2,3) by (rule simulate_matches_returns)
  have la: "length a = nat (max_goals + 1)" and lb: "length b = nat (max_goals + 1)"
    by (simp_all add: a_def b_def)
  have 1: "length (np_outer a b) = nat (max_goals + 1)"
    by (simp add: np_outer_length la)
  have 2: "\<forall>i < nat (max_goals + 1). length (np_outer a b ! i) = nat (max_goals + 1)"
    by (simp add: np_outer_row_length la lb)
  have 3: "\<forall>i < nat (max_goals + 1). \<forall>j < nat (max_goals + 1).
             np_outer a b ! i ! j
               = (lh ^ i * exp (- lh) / fact i) * (la ^ j * exp (- la) / fact j)"
    by (simp add: np_outer_nth la lb) (simp add: a_def b_def poisson_pmf_def)
  have 4: "np_outer a b ! 2 ! 1 = (4 * exp (- 2) / 2) * (1 * exp (- 1) / 1)
           \<and> \<bar>np_outer a b ! 2 ! 1 - 0.0996\<bar> \<le> 0.0001"
    if "lh = 2 \<and> la = 1 \<and> max_goals = 5"
  proof -
    have "np_outer a b ! 2 ! 1
            = (lh ^ 2 * exp (- lh) / fact 2) * (la ^ 1 * exp (- la) / fact 1)"
      using 3 that by simp
    then have "np_outer a b ! 2 ! 1 = (4 * exp (- 2) / 2) * (1 * exp (- 1) / 1)"
      using that by simp
    then show ?thesis using poisson_cell_2_1 by simp
  qed
  show ?thesis using r 1 2 3 4 by blast
qed

theorem simulate_matches_scoreline_witness:
  "\<exists>M. simulate_matches example_model ''Man City'' ''Arsenal'' 5 = Inr M
      \<and> length M = 6
      \<and> M ! 2 ! 1 = (4 * exp (- 2) / 2) * (1 * exp (- 1) / 1)
      \<and> \<bar>M ! 2 ! 1 - 0.0996\<bar> \<le> 0.0001"
  using simulate_matches_scoreline [of 5 example_model "''Man City''" "''Arsenal''" 2 1]
  by (simp add: predict_def example_model_def) blast

lemma example_fitted: "fitted_on example_model (goal_model_data example_epl)"
  by (auto simp add: fitted_on_def example_model_def goal_model_data_def example_epl_def
      home_rows_def away_rows_def)

text \<open>
  Claim C5.  For the matrix returned by \<open>simulate_matches\<close> with \<open>max_goals \<ge> 0\<close>, the
  predicted rates \<open>lh\<close> and \<open>la\<close> are positive, every cell is non-negative, the sum of
  all cells is at most 1, and the cell \<open>(0, 0)\<close> is \<open>exp (- lh) * exp (- la)\<close>.
\<close>

theorem scoreline_matrix_invariants:
  assumes "0 \<le> max_goals"
    and "predict gm home_side away_side 1 = Inr lh"
    and "predict gm away_side home_side 0 = Inr la"
  shows "\<exists>M. simulate_matches gm home_side away_side max_goals = Inr M
           \<and> 0 < lh \<and> 0 < la
           \<and> (\<forall>r \<in> set M. \<forall>c \<in> set r. 0 \<le> c)
           \<and> sum_list (map sum_list M) \<le> 1
           \<and> M ! 0 ! 0 = exp (- lh) * exp (- la)"
proof -
  define n where "n = nat (max_goals + 1)"
  define a where "a = map (\<lambda>i. poisson_pmf i lh) [0 ..< n]"
  define b where "b = map (\<lambda>i. poisson_pmf i la) [0 ..< n]"
  have r: "simulate_matches gm home_side away_side max_goals = Inr (np_outer a b)"
    unfolding a_def b_def n_def using assms(2,3) by (rule simulate_matches_returns)
  have ph: "0 < lh" using assms(2) by (rule predict_positive)
  have pa: "0 < la" using assms(3) by (rule predict_positive)
  have n: "0 < n" using assms(1) by (simp add: n_def)
  have nn: "\<forall>r \<in> set (np_outer a b). \<forall>c \<in> set r. 0 \<le> c"
    by (rule np_outer_nonneg) (use ph pa in \<open>auto simp: a_def b_def poisson_pmf_nonneg\<close>)
  have sa: "0 \<le> sum_list a" "sum_list a \<le> 1"
    unfolding a_def using ph
    by (simp_all add: poisson_vector_sum_nonneg poisson_vector_sum_le_1)
  have sb: "0 \<le> sum_list b" "sum_list b \<le> 1"
    unfolding b_def using pa
    by (simp_all add: poisson_vector_sum_nonneg poisson_vector_sum_le_1)
  have "sum_list a * sum_list b \<le> 1 * 1"
    using sa sb by (intro mult_mono) auto
  then have s: "sum_list (map sum_list (np_outer a b)) \<le> 1"
    by (simp add: sum_list_np_outer)
  have "np_outer a b ! 0 ! 0 = a ! 0 * b ! 0"
    by (rule np_outer_nth) (use n in \<open>simp_all add: a_def b_def\<close>)
  also have "\<dots> = exp (- lh) * exp (- la)"
    using n by (simp add: a_def b_def poisson_pmf_def)
  finally have z: "np_outer a b ! 0 ! 0 = exp (- lh) * exp (- la)" .
  show ?thesis using r ph pa nn s z by blast
qed

theorem scoreline_matrix_invariants_witness:
  "\<exists>M. simulate_matches example_model ''Man City'' ''Arsenal'' 5 = Inr M
      \<and> (\<forall>r \<in> set M. \<forall>c \<in> set r. 0 \<le> c)
      \<and> sum_list (map sum_list M) \<le> 1
      \<and> M ! 0 ! 0 = exp (- 2) * exp (- 1)"
  using scoreline_matrix_invariants [of 5 example_model "''Man City''" "''Arsenal''" 2 1]
  by (simp add: predict_def example_model_def)

text \<open>
  Claim C6.  For a fitted model and a team and an opponent of the fitting data, the
  predicted rate is the exponential of the linear predictor and therefore strictly
  positive, for every value of the home indicator.
\<close>

theorem predict_rate_positive:
  assumes "fitted_on gm rows"
    and "t \<in> team ` set rows"
    and "opp \<in> opponent ` set rows"
  shows "\<exists>b_team b_opp lam.
           coef_team gm t = Some b_team \<and> coef_opponent gm opp = Some b_opp
           \<and> predict gm t opp h = Inr lam
           \<and> lam = exp (coef_intercept gm + coef_home gm * h + b_team + b_opp)
           \<and> 0 < lam"
proof -
  from assms obtain b_team b_opp
    where "coef_team gm t = Some b_team" "coef_opponent gm opp = Some b_opp"
    unfolding fitted_on_def by (metis domD)
  then show ?thesis by (simp add: predict_def)
qed

theorem predict_rate_positive_witness:
  "\<exists>lam. predict example_model ''Man City'' ''Arsenal'' 1 = Inr lam \<and> lam = 2 \<and> 0 < lam"
  using predict_rate_positive [of example_model "goal_model_data example_epl"
      "''Man City''" "''Arsenal''" 1] example_fitted
  by (simp add: example_model_def goal_model_data_def example_epl_def
      home_rows_def away_rows_def)

text \<open>
  Claim C7.  The training table has exactly twice as many rows as there are matches:
  for the match at position \<open>i\<close>, the row at position \<open>i\<close> is (team = home team,
  opponent = away team, goals = home goals, home = 1) and the row at position
  \<open>length epl + i\<close> is (team = away team, opponent = home team, goals = away goals,
  home = 0).
\<close>

theorem goal_model_data_two_rows_per_match:
  "length (goal_model_data epl) = 2 * length epl
   \<and> (\<forall>i < length epl.
         goal_model_data epl ! i
           = \<lparr>team = HomeTeam (epl ! i), opponent = AwayTeam (epl ! i),
              goals = HomeGoals (epl ! i), home = 1\<rparr>
         \<and> goal_model_data epl ! (length epl + i)
           = \<lparr>team = AwayTeam (epl ! i), opponent = HomeTeam (epl ! i),
              goals = AwayGoals (epl ! i), home = 0\<rparr>)"
  by (simp add: goal_model_data_def home_rows_def away_rows_def nth_append)

theorem goal_model_data_two_rows_per_match_witness:
  "length (goal_model_data example_epl) = 4
   \<and> goal_model_data example_epl ! 1
       = \<lparr>team = ''Arsenal'', opponent = ''Man City'', goals = 0, home = 1\<rparr>
   \<and> goal_model_data example_epl ! 3
       = \<lparr>team = ''Man City'', opponent = ''Arsenal'', goals = 3, home = 0\<rparr>"
proof -
  have l: "length example_epl = 2"
    by (simp add: example_epl_def)
  have e: "example_epl ! 1
             = \<lparr>HomeTeam = ''Arsenal'', AwayTeam = ''Man City'', HomeGoals = 0, AwayGoals = 3\<rparr>"
    by (simp add: example_epl_def)
  have i: "1 < length example_epl" by (simp add: l)
  have s: "length example_epl + 1 = 3" by (simp add: l)
  note t = goal_model_data_two_rows_per_match [of example_epl]
  have "length (goal_model_data example_epl) = 4"
    using t by (simp add: l)
  moreover have "goal_model_data example_epl ! 1
       = \<lparr>team = ''Arsenal'', opponent = ''Man City'', goals = 0, home = 1\<rparr>"
    using t [THEN conjunct2, rule_format, OF i] unfolding e by simp
  moreover have "goal_model_data example_epl ! 3
       = \<lparr>team = ''Man City'', opponent = ''Arsenal'', goals = 3, home = 0\<rparr>"
    using t [THEN conjunct2, rule_format, OF i] unfolding e s by simp
  ultimately show ?thesis by blast
qed

text \<open>
  Claim C9.  When the home side or the away side is absent from the team column or
  from the opponent column of the fitting data, \<open>simulate_matches\<close> returns no matrix
  and no defaulted rate: the error raised by the prediction reaches the caller.
\<close>

theorem unseen_category_raises:
  assumes "fitted_on gm rows"
    and "home_side \<notin> team ` set rows \<or> home_side \<notin> opponent ` set rows
         \<or> away_side \<notin> team ` set rows \<or> away_side \<notin> opponent ` set rows"
  shows "simulate_matches gm home_side away_side max_goals = Inl PatsyError"
proof -
  from assms have "coef_team gm home_side = None \<or> coef_opponent gm home_side = None
      \<or> coef_team gm away_side = None \<or> coef_opponent gm away_side = None"
    unfolding fitted_on_def by (metis domIff)
  then show ?thesis
    by (auto simp add: simulate_matches_def predict_def split: option.splits)
qed

theorem unseen_category_raises_witness:
  "simulate_matches example_model ''Man City'' ''Leeds'' 5 = Inl PatsyError"
  using unseen_category_raises [of example_model "goal_model_data example_epl"
      "''Man City''" "''Leeds''" 5] example_fitted
  by (simp add: goal_model_data_def example_epl_def home_rows_def away_rows_def)

end
